theory Spec2Isabelle
  imports Main
begin

section \<open>Package models: users and the repository interface\<close>

text \<open>
  A Go \<^verbatim>\<open>error\<close> is identified with the text \<^verbatim>\<open>err.Error()\<close> returns, since that
  text is all the program ever inspects. A \<^verbatim>\<open>time.Time\<close> is an integer instant whose
  zero value is \<open>0\<close>.
\<close>

type_synonym error = string

type_synonym Time = int

record User =
  ID :: string
  Name :: string
  Email :: string
  CreatedAt :: Time

record UserRequest =
  ReqName :: string
  ReqEmail :: string

definition Validate :: "UserRequest \<Rightarrow> bool \<Rightarrow> error option" where
  "Validate ur isUpdate =
     (if \<not> isUpdate then
        (if ReqName ur = [] then Some ''name is required''
         else if ReqEmail ur = [] then Some ''email is required''
         else None)
      else if ReqName ur = [] \<and> ReqEmail ur = [] then Some ''no fields to update''
      else None)"

text \<open>
  The interface \<^verbatim>\<open>UserRepository\<close>: five operations over a store of type \<open>'s\<close>, each
  returning its result together with the store it leaves behind. A \<^verbatim>\<open>(User, error)\<close>
  result is a sum whose left injection carries the error.
\<close>

record 's UserRepository =
  CreateUser :: "User \<Rightarrow> 's \<Rightarrow> (error + User) \<times> 's"
  GetUserByID :: "string \<Rightarrow> 's \<Rightarrow> (error + User) \<times> 's"
  GetAllUsers :: "'s \<Rightarrow> User list \<times> 's"
  UpdateUser :: "User \<Rightarrow> 's \<Rightarrow> (error + User) \<times> 's"
  DeleteUser :: "string \<Rightarrow> 's \<Rightarrow> error option \<times> 's"

subsection \<open>The in-memory repository\<close>

text \<open>
  The field \<^verbatim>\<open>users map[string]User\<close>. Ranging over a Go map visits every entry once, in
  an order the language leaves open; the order is therefore a parameter \<open>iter\<close> of
  \<^verbatim>\<open>GetAllUsers\<close>, and \<open>ranges iter m\<close> says that \<open>iter\<close> enumerates \<open>m\<close> as a Go range
  loop does.
\<close>

type_synonym users = "string \<rightharpoonup> User"

definition ranges :: "(users \<Rightarrow> (string \<times> User) list) \<Rightarrow> users \<Rightarrow> bool" where
  "ranges iter m \<longleftrightarrow> distinct (map fst (iter m)) \<and> map_of (iter m) = m"

definition inMemoryUserRepository_GetUserByID :: "string \<Rightarrow> users \<Rightarrow> (error + User) \<times> users" where
  "inMemoryUserRepository_GetUserByID uid users =
     (case users uid of
        None \<Rightarrow> (Inl ''user not found'', users)
      | Some user \<Rightarrow> (Inr user, users))"

fun appendAll :: "User list \<Rightarrow> (string \<times> User) list \<Rightarrow> User list" where
  "appendAll userList [] = userList"
| "appendAll userList ((_, user) # rest) = appendAll (userList @ [user]) rest"

definition inMemoryUserRepository_GetAllUsers ::
  "(users \<Rightarrow> (string \<times> User) list) \<Rightarrow> users \<Rightarrow> User list \<times> users" where
  "inMemoryUserRepository_GetAllUsers iter users = (appendAll [] (iter users), users)"

definition inMemoryUserRepository_CreateUser :: "User \<Rightarrow> users \<Rightarrow> (error + User) \<times> users" where
  "inMemoryUserRepository_CreateUser user users = (Inr user, users(ID user \<mapsto> user))"

definition inMemoryUserRepository_UpdateUser :: "User \<Rightarrow> users \<Rightarrow> (error + User) \<times> users" where
  "inMemoryUserRepository_UpdateUser user users =
     (case users (ID user) of
        None \<Rightarrow> (Inl ''user not found'', users)
      | Some _ \<Rightarrow> (Inr user, users(ID user \<mapsto> user)))"

definition inMemoryUserRepository_DeleteUser :: "string \<Rightarrow> users \<Rightarrow> error option \<times> users" where
  "inMemoryUserRepository_DeleteUser uid users =
     (case users uid of
        None \<Rightarrow> (Some ''user not found'', users)
      | Some _ \<Rightarrow> (None, users(uid := None)))"

definition NewInMemoryUserRepository ::
  "(users \<Rightarrow> (string \<times> User) list) \<Rightarrow> users UserRepository" where
  "NewInMemoryUserRepository iter =
     \<lparr>CreateUser = inMemoryUserRepository_CreateUser,
      GetUserByID = inMemoryUserRepository_GetUserByID,
      GetAllUsers = inMemoryUserRepository_GetAllUsers iter,
      UpdateUser = inMemoryUserRepository_UpdateUser,
      DeleteUser = inMemoryUserRepository_DeleteUser\<rparr>"

text \<open>\<^verbatim>\<open>N\<close> calls of \<^verbatim>\<open>CreateUser\<close> in a row, each on the store the previous one left.\<close>

fun createAll :: "User list \<Rightarrow> users \<Rightarrow> (error + User) list \<times> users" where
  "createAll [] users = ([], users)"
| "createAll (user # rest) users =
     (case inMemoryUserRepository_CreateUser user users of
        (r, users') \<Rightarrow> (case createAll rest users' of (rs, users'') \<Rightarrow> (r # rs, users'')))"

subsection \<open>The DynamoDB repository: listing\<close>

text \<open>
  The client \<^verbatim>\<open>db.Scan\<close> and the decoder \<^verbatim>\<open>dynamodbattribute.UnmarshalListOfMaps\<close> belong
  to the AWS SDK; both are parameters, over a table state \<open>'d\<close> and an item type \<open>'i\<close>.
\<close>

definition dynamoDBUserRepository_GetAllUsers ::
  "('d \<Rightarrow> (error + 'i list) \<times> 'd) \<Rightarrow> ('i list \<Rightarrow> error + User list) \<Rightarrow> 'd \<Rightarrow> User list \<times> 'd" where
  "dynamoDBUserRepository_GetAllUsers Scan UnmarshalListOfMaps d =
     (case Scan d of
        (Inl err, d') \<Rightarrow> ([], d')
      | (Inr items, d') \<Rightarrow>
          (case UnmarshalListOfMaps items of
             Inl err \<Rightarrow> ([], d')
           | Inr users \<Rightarrow> (users, d')))"

section \<open>Package utils: responses\<close>

record APIGatewayProxyRequest =
  Path :: string
  HTTPMethod :: string
  RequestHeaders :: "string \<rightharpoonup> string"
  QueryStringParameters :: "string \<rightharpoonup> string"
  PathParameters :: "string \<rightharpoonup> string"
  RequestBody :: string

text \<open>A nil Go map is \<open>None\<close>; a map that was made is \<open>Some\<close> of its contents.\<close>

record APIGatewayProxyResponse =
  StatusCode :: int
  Headers :: "(string \<rightharpoonup> string) option"
  MultiValueHeaders :: "(string \<rightharpoonup> string list) option"
  Body :: string
  IsBase64Encoded :: bool

abbreviation StatusOK :: int where "StatusOK \<equiv> 200"
abbreviation StatusCreated :: int where "StatusCreated \<equiv> 201"
abbreviation StatusNoContent :: int where "StatusNoContent \<equiv> 204"
abbreviation StatusBadRequest :: int where "StatusBadRequest \<equiv> 400"
abbreviation StatusNotFound :: int where "StatusNotFound \<equiv> 404"
abbreviation StatusInternalServerError :: int where "StatusInternalServerError \<equiv> 500"

text \<open>
  The values the program passes to \<^verbatim>\<open>jsonMarshal\<close> as \<^verbatim>\<open>interface{}\<close>: nil, a user, a
  slice of users, or a \<^verbatim>\<open>map[string]string\<close> given by its entries.
\<close>

datatype jsonValue = JNil | JUser User | JUsers "User list" | JMap "(string \<times> string) list"

text \<open>
  What the handlers take from outside the repository: \<^verbatim>\<open>json.Unmarshal\<close> into a
  \<^verbatim>\<open>UserRequest\<close>, the package variable \<^verbatim>\<open>jsonMarshal\<close> (initially \<^verbatim>\<open>json.Marshal\<close>),
  the string of \<^verbatim>\<open>uuid.New()\<close> and the instant \<^verbatim>\<open>time.Now()\<close> of the invocation.
\<close>

record Env =
  jsonUnmarshal :: "string \<Rightarrow> error + UserRequest"
  jsonMarshal :: "jsonValue \<Rightarrow> error + string"
  uuidNew :: string
  timeNow :: Time

definition EnsureHeaders :: "APIGatewayProxyResponse \<Rightarrow> APIGatewayProxyResponse" where
  "EnsureHeaders response =
     (let headers = (case Headers response of None \<Rightarrow> Map.empty | Some h \<Rightarrow> h)
      in response\<lparr>Headers :=
           Some (case headers ''Content-Type'' of
                   None \<Rightarrow> headers(''Content-Type'' \<mapsto> ''application/json'')
                 | Some _ \<Rightarrow> headers)\<rparr>)"

definition APIResponse ::
  "Env \<Rightarrow> int \<Rightarrow> jsonValue \<Rightarrow> APIGatewayProxyResponse \<times> error option" where
  \<open>APIResponse env statusCode body =
     (let headers = [''Content-Type'' \<mapsto> ''application/json'']
      in case (case body of JNil \<Rightarrow> Inr [] | _ \<Rightarrow> jsonMarshal env body) of
           Inl err \<Rightarrow>
             (\<lparr>StatusCode = StatusInternalServerError,
               Headers = Some headers,
               MultiValueHeaders = Some Map.empty,
               Body = ''{"error": "'' @ err @ ''"}'',
               IsBase64Encoded = False\<rparr>,
              Some (''failed to marshal response body: '' @ err))
         | Inr respBody \<Rightarrow>
             (EnsureHeaders
                \<lparr>StatusCode = statusCode,
                 Headers = Some headers,
                 MultiValueHeaders = Some Map.empty,
                 Body = respBody,
                 IsBase64Encoded = False\<rparr>,
              None))\<close>

definition ErrorResponse ::
  "Env \<Rightarrow> int \<Rightarrow> error option \<Rightarrow> APIGatewayProxyResponse \<times> error option" where
  \<open>ErrorResponse env statusCode err =
     (let errMessage = (case err of None \<Rightarrow> [] | Some e \<Rightarrow> e)
      in case jsonMarshal env (JMap [(''error'', errMessage)]) of
           Inl jsonErr \<Rightarrow>
             (\<lparr>StatusCode = StatusInternalServerError,
               Headers = None,
               MultiValueHeaders = None,
               Body = ''{"error": "failed to marshal error response"}'',
               IsBase64Encoded = False\<rparr>,
              None)
         | Inr respBody \<Rightarrow>
             (EnsureHeaders
                \<lparr>StatusCode = statusCode,
                 Headers = Some [''Content-Type'' \<mapsto> ''application/json''],
                 MultiValueHeaders = None,
                 Body = respBody,
                 IsBase64Encoded = False\<rparr>,
              None))\<close>

section \<open>Package handlers\<close>

text \<open>
  A handler takes the environment, its receiver, the request and the store, and returns
  the pair of response and error together with the store. The \<^verbatim>\<open>context.Context\<close> argument
  is read by no handler and is left out, as is the receiver of \<^verbatim>\<open>GetHealthHandler\<close>, a
  struct without fields. Logging is not modelled.
\<close>

text \<open>Reading a key of a \<^verbatim>\<open>map[string]string\<close>: a missing key reads as the empty string.\<close>

definition index :: "(string \<rightharpoonup> string) \<Rightarrow> string \<Rightarrow> string" where
  "index m k = (case m k of None \<Rightarrow> [] | Some v \<Rightarrow> v)"

record 's UserHandler =
  Repo :: "'s UserRepository"

definition NewUserHandler :: "'s UserRepository \<Rightarrow> 's UserHandler" where
  "NewUserHandler userRepo = \<lparr>Repo = userRepo\<rparr>"

type_synonym 's handlerResult = "(APIGatewayProxyResponse \<times> error option) \<times> 's"

definition CreateUserHandler ::
  "Env \<Rightarrow> 's UserHandler \<Rightarrow> APIGatewayProxyRequest \<Rightarrow> 's \<Rightarrow> 's handlerResult" where
  "CreateUserHandler env h request s =
     (case jsonUnmarshal env (RequestBody request) of
        Inl err \<Rightarrow> (ErrorResponse env StatusBadRequest (Some err), s)
      | Inr userReq \<Rightarrow>
          (case Validate userReq False of
             Some err \<Rightarrow> (ErrorResponse env StatusBadRequest (Some err), s)
           | None \<Rightarrow>
               (let newUser = \<lparr>ID = uuidNew env, Name = ReqName userReq,
                               Email = ReqEmail userReq, CreatedAt = timeNow env\<rparr>
                in case CreateUser (Repo h) newUser s of
                     (Inl err, s') \<Rightarrow> (ErrorResponse env StatusInternalServerError (Some err), s')
                   | (Inr createdUser, s') \<Rightarrow>
                       (APIResponse env StatusCreated (JUser createdUser), s'))))"

definition GetUserHandler ::
  "Env \<Rightarrow> 's UserHandler \<Rightarrow> APIGatewayProxyRequest \<Rightarrow> 's \<Rightarrow> 's handlerResult" where
  "GetUserHandler env h request s =
     (let userID = index (PathParameters request) ''id''
      in if userID = [] then
           (ErrorResponse env StatusBadRequest (Some ''user ID is required''), s)
         else
           (case GetUserByID (Repo h) userID s of
              (Inl err, s') \<Rightarrow> (ErrorResponse env StatusNotFound (Some err), s')
            | (Inr user, s') \<Rightarrow> (APIResponse env StatusOK (JUser user), s')))"

definition GetAllUsersHandler ::
  "Env \<Rightarrow> 's UserHandler \<Rightarrow> APIGatewayProxyRequest \<Rightarrow> 's \<Rightarrow> 's handlerResult" where
  "GetAllUsersHandler env h request s =
     (case GetAllUsers (Repo h) s of
        (userList, s') \<Rightarrow> (APIResponse env StatusOK (JUsers userList), s'))"

definition UpdateUserHandler ::
  "Env \<Rightarrow> 's UserHandler \<Rightarrow> APIGatewayProxyRequest \<Rightarrow> 's \<Rightarrow> 's handlerResult" where
  "UpdateUserHandler env h request s =
     (let userID = index (PathParameters request) ''id''
      in if userID = [] then
           (ErrorResponse env StatusBadRequest (Some ''user ID is required''), s)
         else
           (case jsonUnmarshal env (RequestBody request) of
              Inl err \<Rightarrow> (ErrorResponse env StatusBadRequest (Some err), s)
            | Inr userReq \<Rightarrow>
                (case Validate userReq True of
                   Some err \<Rightarrow> (ErrorResponse env StatusBadRequest (Some err), s)
                 | None \<Rightarrow>
                     (case GetUserByID (Repo h) userID s of
                        (Inl err, s') \<Rightarrow> (ErrorResponse env StatusNotFound (Some err), s')
                      | (Inr existingUser, s') \<Rightarrow>
                          (let existingUser =
                                 (if ReqName userReq \<noteq> []
                                  then existingUser\<lparr>Name := ReqName userReq\<rparr>
                                  else existingUser);
                               existingUser =
                                 (if ReqEmail userReq \<noteq> []
                                  then existingUser\<lparr>Email := ReqEmail userReq\<rparr>
                                  else existingUser)
                           in case UpdateUser (Repo h) existingUser s' of
                                (Inl err, s'') \<Rightarrow>
                                  (ErrorResponse env StatusInternalServerError (Some err), s'')
                              | (Inr updatedUser, s'') \<Rightarrow>
                                  (APIResponse env StatusOK (JUser updatedUser), s''))))))"

definition DeleteUserHandler ::
  "Env \<Rightarrow> 's UserHandler \<Rightarrow> APIGatewayProxyRequest \<Rightarrow> 's \<Rightarrow> 's handlerResult" where
  "DeleteUserHandler env h request s =
     (let userID = index (PathParameters request) ''id''
      in if userID = [] then
           (ErrorResponse env StatusBadRequest (Some ''user ID is required''), s)
         else
           (case DeleteUser (Repo h) userID s of
              (Some err, s') \<Rightarrow>
                (if err = ''user not found''
                 then (ErrorResponse env StatusNotFound (Some err), s')
                 else (ErrorResponse env StatusInternalServerError (Some err), s'))
            | (None, s') \<Rightarrow> (APIResponse env StatusNoContent JNil, s')))"

definition GetHealthHandler ::
  "Env \<Rightarrow> APIGatewayProxyRequest \<Rightarrow> APIGatewayProxyResponse \<times> error option" where
  "GetHealthHandler env request =
     APIResponse env StatusOK (JMap [(''message'', ''Health Check OK'')])"

section \<open>Package lambda: the router\<close>

abbreviation UsersIDPath :: string where "UsersIDPath \<equiv> ''/users/{id}''"
abbreviation RootPath :: string where "RootPath \<equiv> ''/''"
abbreviation HealthPath :: string where "HealthPath \<equiv> ''/health''"
abbreviation UsersPath :: string where "UsersPath \<equiv> ''/users''"

abbreviation MethodGet :: string where "MethodGet \<equiv> ''GET''"
abbreviation MethodPost :: string where "MethodPost \<equiv> ''POST''"
abbreviation MethodPut :: string where "MethodPut \<equiv> ''PUT''"
abbreviation MethodDelete :: string where "MethodDelete \<equiv> ''DELETE''"
abbreviation MethodOptions :: string where "MethodOptions \<equiv> ''OPTIONS''"

text \<open>The entries of the map literal \<^verbatim>\<open>commonHeaders\<close>, in the order they are written.\<close>

definition commonHeaders :: "(string \<times> string) list" where
  "commonHeaders =
     [(''Content-Type'', ''application/json''),
      (''Access-Control-Allow-Origin'', ''*''),
      (''Access-Control-Allow-Methods'', ''GET,POST,PUT,DELETE,OPTIONS''),
      (''Access-Control-Allow-Headers'',
         ''Content-Type,Authorization,X-Amz-Date,X-Api-Key,X-Amz-Security-Token''),
      (''Access-Control-Allow-Credentials'', ''true'')]"

definition handleRootGet ::
  "Env \<Rightarrow> APIGatewayProxyRequest \<Rightarrow> APIGatewayProxyResponse \<times> error option" where
  "handleRootGet env request =
     APIResponse env StatusOK (JMap [(''message'', ''Welcome to the Go Lambda API'')])"

definition handleCreateUser ::
  "Env \<Rightarrow> APIGatewayProxyRequest \<Rightarrow> 's UserRepository \<Rightarrow> 's \<Rightarrow> 's handlerResult" where
  "handleCreateUser env request userRepo = CreateUserHandler env (NewUserHandler userRepo) request"

definition handleGetUser ::
  "Env \<Rightarrow> APIGatewayProxyRequest \<Rightarrow> 's UserRepository \<Rightarrow> 's \<Rightarrow> 's handlerResult" where
  "handleGetUser env request userRepo = GetUserHandler env (NewUserHandler userRepo) request"

definition handleGetAllUsers ::
  "Env \<Rightarrow> APIGatewayProxyRequest \<Rightarrow> 's UserRepository \<Rightarrow> 's \<Rightarrow> 's handlerResult" where
  "handleGetAllUsers env request userRepo = GetAllUsersHandler env (NewUserHandler userRepo) request"

definition handleUpdateUser ::
  "Env \<Rightarrow> APIGatewayProxyRequest \<Rightarrow> 's UserRepository \<Rightarrow> 's \<Rightarrow> 's handlerResult" where
  "handleUpdateUser env request userRepo = UpdateUserHandler env (NewUserHandler userRepo) request"

definition handleDeleteUser ::
  "Env \<Rightarrow> APIGatewayProxyRequest \<Rightarrow> 's UserRepository \<Rightarrow> 's \<Rightarrow> 's handlerResult" where
  "handleDeleteUser env request userRepo = DeleteUserHandler env (NewUserHandler userRepo) request"

text \<open>The \<^verbatim>\<open>switch\<close> of \<^verbatim>\<open>Router\<close>: the first case whose path and method both match.\<close>

definition routeSwitch ::
  "Env \<Rightarrow> APIGatewayProxyRequest \<Rightarrow> 's UserRepository \<Rightarrow> 's \<Rightarrow> 's handlerResult" where
  "routeSwitch env request userRepo s =
     (if Path request = RootPath \<and> HTTPMethod request = MethodGet then
        (handleRootGet env request, s)
      else if Path request = HealthPath \<and> HTTPMethod request = MethodGet then
        (GetHealthHandler env request, s)
      else if Path request = UsersPath \<and> HTTPMethod request = MethodPost then
        handleCreateUser env request userRepo s
      else if Path request = UsersIDPath \<and> HTTPMethod request = MethodGet then
        handleGetUser env request userRepo s
      else if Path request = UsersPath \<and> HTTPMethod request = MethodGet then
        handleGetAllUsers env request userRepo s
      else if Path request = UsersIDPath \<and> HTTPMethod request = MethodPut then
        handleUpdateUser env request userRepo s
      else if Path request = UsersIDPath \<and> HTTPMethod request = MethodDelete then
        handleDeleteUser env request userRepo s
      else
        (ErrorResponse env StatusNotFound (Some ''not found''), s))"

text \<open>
  \<^verbatim>\<open>Router\<close> either returns its pair of response and error, with the store, or panics:
  writing an entry into a nil map is a run-time panic in Go, and the loop that copies
  \<^verbatim>\<open>commonHeaders\<close> into the error response writes into whatever map
  \<^verbatim>\<open>ErrorResponse\<close> returned. A panic is the left injection, with its message.
\<close>

definition Router ::
  "Env \<Rightarrow> APIGatewayProxyRequest \<Rightarrow> 's UserRepository \<Rightarrow> 's \<Rightarrow> string + 's handlerResult" where
  "Router env request userRepo s =
     (if HTTPMethod request = MethodOptions then
        Inr ((\<lparr>StatusCode = StatusOK,
                Headers = Some (map_of commonHeaders),
                MultiValueHeaders = None,
                Body = [],
                IsBase64Encoded = False\<rparr>, None), s)
      else
        (case routeSwitch env request userRepo s of
           ((response, Some err), s') \<Rightarrow>
             (let statusCode =
                    (if StatusCode response \<noteq> 0 \<and> StatusCode response \<noteq> StatusOK
                     then StatusCode response else StatusInternalServerError)
              in case ErrorResponse env statusCode (Some err) of
                   (errorResponse, _) \<Rightarrow>
                     (case Headers errorResponse of
                        None \<Rightarrow> Inl ''assignment to entry in nil map''
                      | Some hdrs \<Rightarrow>
                          Inr ((errorResponse
                                  \<lparr>Headers := Some (fold (\<lambda>(k, v) m. m(k \<mapsto> v)) commonHeaders hdrs)\<rparr>,
                                None), s')))
         | ((response, None), s') \<Rightarrow>
             (let hdrs = (case Headers response of None \<Rightarrow> Map.empty | Some m \<Rightarrow> m)
              in Inr ((response
                         \<lparr>Headers :=
                            Some (fold (\<lambda>(k, v) m. case m k of None \<Rightarrow> m(k \<mapsto> v) | Some _ \<Rightarrow> m)
                                    commonHeaders hdrs)\<rparr>,
                       None), s'))))"

section \<open>Package app: the local server's adapter\<close>

text \<open>
  The parts of a \<^verbatim>\<open>*http.Request\<close> that \<^verbatim>\<open>adapt\<close> reads, and what it leaves in the
  \<^verbatim>\<open>http.ResponseWriter\<close>: the header map, the status line and the bytes written. Header
  keys are kept as the handler spelt them; \<^verbatim>\<open>net/http\<close> would canonicalise them, which
  leaves \<^verbatim>\<open>Content-Type\<close>, the one key the handlers set, as it is.
\<close>

record httpRequest =
  URLPath :: string
  Method :: string
  Header :: "string \<rightharpoonup> string list"
  URLQuery :: "string \<rightharpoonup> string list"
  PathValue :: "string \<Rightarrow> string"

record ResponseWriter =
  wHeader :: "string \<rightharpoonup> string"
  wStatus :: int
  wBody :: string

definition newResponseWriter :: ResponseWriter where
  "newResponseWriter = \<lparr>wHeader = Map.empty, wStatus = 0, wBody = []\<rparr>"

text \<open>\<^verbatim>\<open>WriteHeader\<close> panics on a code outside \<open>100..999\<close>, as \<^verbatim>\<open>net/http\<close> does.\<close>

definition WriteHeader :: "ResponseWriter \<Rightarrow> int \<Rightarrow> string + ResponseWriter" where
  "WriteHeader w code =
     (if code < 100 \<or> code > 999 then Inl ''invalid WriteHeader code''
      else Inr (w\<lparr>wStatus := code\<rparr>))"

definition Write :: "ResponseWriter \<Rightarrow> string \<Rightarrow> ResponseWriter" where
  "Write w bytes = w\<lparr>wBody := wBody w @ bytes\<rparr>"

text \<open>\<^verbatim>\<open>http.Error\<close>: two headers, the status, then the message and a newline.\<close>

definition httpError :: "ResponseWriter \<Rightarrow> string \<Rightarrow> int \<Rightarrow> string + ResponseWriter" where
  "httpError w msg code =
     (case WriteHeader
             (w\<lparr>wHeader := (wHeader w)(''Content-Type'' \<mapsto> ''text/plain; charset=utf-8'',
                                          ''X-Content-Type-Options'' \<mapsto> ''nosniff'')\<rparr>) code of
        Inl p \<Rightarrow> Inl p
      | Inr w' \<Rightarrow> Inr (Write w' (msg @ [CHR 0x0A])))"

text \<open>The first value of every key that has one: the two copying loops of \<^verbatim>\<open>adapt\<close>.\<close>

definition firstValues :: "(string \<rightharpoonup> string list) \<Rightarrow> (string \<rightharpoonup> string)" where
  "firstValues m = (\<lambda>name. case m name of None \<Rightarrow> None | Some [] \<Rightarrow> None | Some (v # _) \<Rightarrow> Some v)"

text \<open>The request \<^verbatim>\<open>adapt\<close> builds from the incoming one; the body is not copied.\<close>

definition toAPIGatewayProxyRequest :: "httpRequest \<Rightarrow> APIGatewayProxyRequest" where
  "toAPIGatewayProxyRequest r =
     \<lparr>Path = URLPath r,
      HTTPMethod = Method r,
      RequestHeaders = firstValues (Header r),
      QueryStringParameters = firstValues (URLQuery r),
      PathParameters =
        (if PathValue r ''id'' \<noteq> [] then [''id'' \<mapsto> PathValue r ''id''] else Map.empty),
      RequestBody = []\<rparr>"

definition adapt ::
  "(APIGatewayProxyRequest \<Rightarrow> 's \<Rightarrow> 's handlerResult) \<Rightarrow> httpRequest \<Rightarrow> 's
     \<Rightarrow> (string + ResponseWriter) \<times> 's" where
  "adapt handler r s =
     (let apiReq = toAPIGatewayProxyRequest r
      in case handler apiReq s of
           ((apiResp, Some err), s') \<Rightarrow>
             (httpError newResponseWriter err StatusInternalServerError, s')
         | ((apiResp, None), s') \<Rightarrow>
             (let w = newResponseWriter
                        \<lparr>wHeader := (case Headers apiResp of None \<Rightarrow> Map.empty | Some m \<Rightarrow> m)\<rparr>
              in case WriteHeader w (StatusCode apiResp) of
                   Inl p \<Rightarrow> (Inl p, s')
                 | Inr w' \<Rightarrow> (Inr (Write w' (Body apiResp)), s')))"

text \<open>
  The six patterns \<^verbatim>\<open>startLocalServer\<close> registers, the handler each one is given, and
  the adapted handler the multiplexer calls.
\<close>

datatype pattern =
  GET_health | POST_users | GET_users_id | GET_users | PUT_users_id | DELETE_users_id

fun registeredHandler ::
  "Env \<Rightarrow> 's UserRepository \<Rightarrow> pattern \<Rightarrow> APIGatewayProxyRequest \<Rightarrow> 's \<Rightarrow> 's handlerResult" where
  "registeredHandler env userRepo GET_health = (\<lambda>request s. (GetHealthHandler env request, s))"
| "registeredHandler env userRepo POST_users = CreateUserHandler env (NewUserHandler userRepo)"
| "registeredHandler env userRepo GET_users_id = GetUserHandler env (NewUserHandler userRepo)"
| "registeredHandler env userRepo GET_users = GetAllUsersHandler env (NewUserHandler userRepo)"
| "registeredHandler env userRepo PUT_users_id = UpdateUserHandler env (NewUserHandler userRepo)"
| "registeredHandler env userRepo DELETE_users_id = DeleteUserHandler env (NewUserHandler userRepo)"

definition registered ::
  "Env \<Rightarrow> 's UserRepository \<Rightarrow> pattern \<Rightarrow> httpRequest \<Rightarrow> 's \<Rightarrow> (string + ResponseWriter) \<times> 's" where
  "registered env userRepo p = adapt (registeredHandler env userRepo p)"

text \<open>
  The outcomes a handler can have: one of the six status codes the program uses and no
  error, or status 500 together with the error \<^verbatim>\<open>APIResponse\<close> reports when
  \<^verbatim>\<open>jsonMarshal\<close> rejects a response body.
\<close>

definition statusCodes :: "int set" where
  "statusCodes = {StatusOK, StatusCreated, StatusNoContent, StatusBadRequest, StatusNotFound,
                  StatusInternalServerError}"

definition marshalFailure :: "Env \<Rightarrow> error \<Rightarrow> bool" where
  "marshalFailure env e \<longleftrightarrow>
     (\<exists>v m. jsonMarshal env v = Inl m \<and> e = ''failed to marshal response body: '' @ m)"

definition settled :: "Env \<Rightarrow> APIGatewayProxyResponse \<times> error option \<Rightarrow> bool" where
  "settled env r \<longleftrightarrow>
     (case r of
        (resp, None) \<Rightarrow> StatusCode resp \<in> statusCodes
      | (resp, Some e) \<Rightarrow> StatusCode resp = StatusInternalServerError \<and> marshalFailure env e)"

section \<open>Sample values\<close>

text \<open>
  Concrete users, requests and an environment at which the theorems below are
  instantiated. \<open>decodeSample\<close> tabulates \<^verbatim>\<open>json.Unmarshal\<close> on three request bodies;
  \<open>encodeSample\<close> stands in for \<^verbatim>\<open>json.Marshal\<close>: it writes a string map as a JSON object
  (for strings that need no escaping), writes the id, name and email of a user, and
  rejects a slice of users, so that a failing response body can be exercised.
  \<open>sampleIter\<close> ranges over the keys \<open>1\<close>, \<open>2\<close> and \<open>3\<close>.
\<close>

definition alice :: User where
  "alice = \<lparr>ID = ''1'', Name = ''Alice'', Email = ''alice@example.com'', CreatedAt = 1\<rparr>"

definition bob :: User where
  "bob = \<lparr>ID = ''2'', Name = ''Bob'', Email = ''bob@example.com'', CreatedAt = 2\<rparr>"

definition decodeSample :: "string \<Rightarrow> error + UserRequest" where
  \<open>decodeSample b =
     (if b = ''{"name":"","email":""}'' then Inr \<lparr>ReqName = [], ReqEmail = []\<rparr>
      else if b = ''{"name":"Bob","email":""}'' then Inr \<lparr>ReqName = ''Bob'', ReqEmail = []\<rparr>
      else if b = ''{"name":"Carol","email":"carol@example.com"}''
        then Inr \<lparr>ReqName = ''Carol'', ReqEmail = ''carol@example.com''\<rparr>
      else Inl ''unexpected end of JSON input'')\<close>

fun members :: "(string \<times> string) list \<Rightarrow> string" where
  \<open>members [] = []\<close>
| \<open>members [(k, v)] = ''"'' @ k @ ''":"'' @ v @ ''"''\<close>
| \<open>members ((k, v) # rest) = ''"'' @ k @ ''":"'' @ v @ ''",'' @ members rest\<close>

fun encodeSample :: "jsonValue \<Rightarrow> error + string" where
  \<open>encodeSample (JMap m) = Inr (''{'' @ members m @ ''}'')\<close>
| \<open>encodeSample (JUser u) =
     Inr (''{'' @ members [(''id'', ID u), (''name'', Name u), (''email'', Email u)] @ ''}'')\<close>
| \<open>encodeSample JNil = Inr ''null''\<close>
| \<open>encodeSample (JUsers us) = Inl ''json: unsupported value''\<close>

definition sampleEnv :: Env where
  "sampleEnv = \<lparr>jsonUnmarshal = decodeSample, jsonMarshal = encodeSample,
                 uuidNew = ''3'', timeNow = 3\<rparr>"

definition sampleIter :: "users \<Rightarrow> (string \<times> User) list" where
  "sampleIter m =
     concat (map (\<lambda>k. case m k of None \<Rightarrow> [] | Some u \<Rightarrow> [(k, u)]) [''1'', ''2'', ''3''])"

definition sampleRequest ::
  "string \<Rightarrow> string \<Rightarrow> (string \<rightharpoonup> string) \<Rightarrow> string \<Rightarrow> APIGatewayProxyRequest" where
  "sampleRequest method path params body =
     \<lparr>Path = path, HTTPMethod = method, RequestHeaders = Map.empty,
      QueryStringParameters = Map.empty, PathParameters = params, RequestBody = body\<rparr>"

definition sampleHttpRequest :: "string \<Rightarrow> string \<Rightarrow> string \<Rightarrow> httpRequest" where
  "sampleHttpRequest method path idValue =
     \<lparr>URLPath = path, Method = method, Header = Map.empty, URLQuery = Map.empty,
      PathValue = (\<lambda>name. if name = ''id'' then idValue else [])\<rparr>"

section \<open>Auxiliary facts\<close>

subsection \<open>The in-memory store\<close>

lemma appendAll_eq: "appendAll acc xs = acc @ map snd xs"
  by (induction xs arbitrary: acc) auto

lemma createAll_results: "fst (createAll us m) = map Inr us"
  by (induction us arbitrary: m)
     (simp_all add: inMemoryUserRepository_CreateUser_def case_prod_beta)

lemma createAll_store:
  "snd (createAll us m) = m ++ map_of (rev (map (\<lambda>u. (ID u, u)) us))"
proof (induction us arbitrary: m)
  case Nil
  show ?case by simp
next
  case (Cons u us)
  have "snd (createAll (u # us) m) = snd (createAll us (m(ID u \<mapsto> u)))"
    by (simp add: inMemoryUserRepository_CreateUser_def case_prod_beta)
  also have "\<dots> = m(ID u \<mapsto> u) ++ map_of (rev (map (\<lambda>u. (ID u, u)) us))"
    by (rule Cons.IH)
  also have "\<dots> = m ++ map_of (rev (map (\<lambda>u. (ID u, u)) (u # us)))"
    by (simp add: map_add_upd_left)
  finally show ?case .
qed

lemma ranges_length:
  assumes "ranges iter m"
  shows "length (iter m) = card (dom m)"
proof -
  from assms have d: "distinct (map fst (iter m))" and m: "map_of (iter m) = m"
    by (simp_all add: ranges_def)
  have "card (dom m) = card (set (map fst (iter m)))"
    using m by (simp add: dom_map_of_conv_image_fst[symmetric])
  also have "\<dots> = length (map fst (iter m))"
    using d by (rule distinct_card)
  finally show ?thesis by simp
qed

lemma ranges_values:
  assumes "ranges iter m"
  shows "set (map snd (iter m)) = ran m"
proof -
  from assms have d: "distinct (map fst (iter m))" and m: "map_of (iter m) = m"
    by (simp_all add: ranges_def)
  from d have "ran (map_of (iter m)) = snd ` set (iter m)"
    by (rule ran_distinct)
  with m show ?thesis by simp
qed

lemma created_dom:
  "dom (map_of (rev (map (\<lambda>u. (ID u, u)) us))) = ID ` set us"
  by (simp add: dom_map_of_conv_image_fst image_image)

lemma created_ran:
  assumes "distinct (map ID us)"
  shows "ran (map_of (rev (map (\<lambda>u. (ID u, u)) us))) = set us"
proof -
  have "distinct (map fst (rev (map (\<lambda>u. (ID u, u)) us)))"
    using assms by (simp add: rev_map[symmetric] comp_def)
  then have "ran (map_of (rev (map (\<lambda>u. (ID u, u)) us))) = snd ` set (rev (map (\<lambda>u. (ID u, u)) us))"
    by (rule ran_distinct)
  then show ?thesis by (simp add: image_image)
qed

subsection \<open>Responses whose body encodes\<close>

lemma ErrorResponse_encoded:
  assumes "jsonMarshal env (JMap [(''error'', e)]) = Inr body"
  shows "ErrorResponse env code (Some e) =
           (\<lparr>StatusCode = code,
             Headers = Some [''Content-Type'' \<mapsto> ''application/json''],
             MultiValueHeaders = None,
             Body = body,
             IsBase64Encoded = False\<rparr>, None)"
  using assms by (simp add: ErrorResponse_def EnsureHeaders_def)

lemma APIResponse_encoded:
  assumes "jsonMarshal env v = Inr body"
  shows "APIResponse env code v =
           (\<lparr>StatusCode = code,
             Headers = Some [''Content-Type'' \<mapsto> ''application/json''],
             MultiValueHeaders = Some Map.empty,
             Body = (case v of JNil \<Rightarrow> [] | _ \<Rightarrow> body),
             IsBase64Encoded = False\<rparr>, None)"
  using assms by (cases v) (simp_all add: APIResponse_def EnsureHeaders_def)

lemma APIResponse_nil:
  "APIResponse env code JNil =
           (\<lparr>StatusCode = code,
             Headers = Some [''Content-Type'' \<mapsto> ''application/json''],
             MultiValueHeaders = Some Map.empty,
             Body = [],
             IsBase64Encoded = False\<rparr>, None)"
  by (simp add: APIResponse_def EnsureHeaders_def)

subsection \<open>Every handler settles\<close>

lemma ErrorResponse_settled:
  "code \<in> statusCodes \<Longrightarrow> settled env (ErrorResponse env code err)"
  by (simp add: settled_def ErrorResponse_def EnsureHeaders_def statusCodes_def split: sum.splits)

lemma APIResponse_settled:
  assumes "code \<in> statusCodes"
  shows "settled env (APIResponse env code v)"
proof (cases "case v of JNil \<Rightarrow> Inr [] | _ \<Rightarrow> jsonMarshal env v")
  case (Inl m)
  then have "jsonMarshal env v = Inl m"
    by (cases v) simp_all
  then have "marshalFailure env (''failed to marshal response body: '' @ m)"
    unfolding marshalFailure_def by blast
  with Inl show ?thesis
    by (simp add: settled_def APIResponse_def)
next
  case (Inr b)
  with assms show ?thesis
    by (simp add: settled_def APIResponse_def EnsureHeaders_def)
qed

lemma statusCodes_mem [simp]:
  "StatusOK \<in> statusCodes" "StatusCreated \<in> statusCodes" "StatusNoContent \<in> statusCodes"
  "StatusBadRequest \<in> statusCodes" "StatusNotFound \<in> statusCodes"
  "StatusInternalServerError \<in> statusCodes"
  by (simp_all add: statusCodes_def)

lemma CreateUserHandler_settled: "settled env (fst (CreateUserHandler env h request s))"
  by (simp add: CreateUserHandler_def ErrorResponse_settled APIResponse_settled Let_def
        split: sum.splits option.splits prod.splits)

lemma GetUserHandler_settled: "settled env (fst (GetUserHandler env h request s))"
  by (simp add: GetUserHandler_def ErrorResponse_settled APIResponse_settled Let_def
        split: sum.splits option.splits prod.splits)

lemma GetAllUsersHandler_settled: "settled env (fst (GetAllUsersHandler env h request s))"
  by (simp add: GetAllUsersHandler_def ErrorResponse_settled APIResponse_settled Let_def
        split: sum.splits option.splits prod.splits)

lemma UpdateUserHandler_settled: "settled env (fst (UpdateUserHandler env h request s))"
  by (simp add: UpdateUserHandler_def ErrorResponse_settled APIResponse_settled Let_def
        split: sum.splits option.splits prod.splits)

lemma DeleteUserHandler_settled: "settled env (fst (DeleteUserHandler env h request s))"
  by (simp add: DeleteUserHandler_def ErrorResponse_settled APIResponse_settled Let_def
        split: sum.splits option.splits prod.splits)

lemma GetHealthHandler_settled: "settled env (GetHealthHandler env request)"
  by (simp add: GetHealthHandler_def APIResponse_settled)

lemma handleRootGet_settled: "settled env (handleRootGet env request)"
  by (simp add: handleRootGet_def APIResponse_settled)

lemma routeSwitch_settled: "settled env (fst (routeSwitch env request userRepo s))"
  by (simp add: routeSwitch_def handleCreateUser_def handleGetUser_def handleGetAllUsers_def
        handleUpdateUser_def handleDeleteUser_def
        CreateUserHandler_settled GetUserHandler_settled GetAllUsersHandler_settled
        UpdateUserHandler_settled DeleteUserHandler_settled GetHealthHandler_settled
        handleRootGet_settled ErrorResponse_settled)

lemma registeredHandler_settled:
  "settled env (fst (registeredHandler env userRepo p request s))"
  by (cases p)
     (simp_all add: CreateUserHandler_settled GetUserHandler_settled GetAllUsersHandler_settled
        UpdateUserHandler_settled DeleteUserHandler_settled GetHealthHandler_settled)

lemma Router_options:
  "HTTPMethod request = MethodOptions \<Longrightarrow>
   \<exists>resp. Router env request userRepo s = Inr ((resp, None), s) \<and> StatusCode resp = StatusOK"
  by (simp add: Router_def)

lemma Router_passes:
  assumes "HTTPMethod request \<noteq> MethodOptions"
      and "routeSwitch env request userRepo s = ((response, None), s')"
  shows "\<exists>resp. Router env request userRepo s = Inr ((resp, None), s')
           \<and> StatusCode resp = StatusCode response \<and> Body resp = Body response"
  using assms by (simp add: Router_def Let_def)

lemma Router_maps_error:
  assumes "HTTPMethod request \<noteq> MethodOptions"
      and "routeSwitch env request userRepo s = ((response, Some e), s')"
      and "StatusCode response = StatusInternalServerError"
      and "jsonMarshal env (JMap [(''error'', e)]) = Inr b"
  shows "\<exists>resp. Router env request userRepo s = Inr ((resp, None), s')
           \<and> StatusCode resp = StatusInternalServerError \<and> Body resp = b"
  using assms(1-3) by (simp add: Router_def Let_def ErrorResponse_encoded [OF assms(4)])

lemma Router_total:
  assumes maps: "\<And>m. \<exists>b. jsonMarshal env (JMap m) = Inr b"
  shows "\<exists>resp s'. Router env request userRepo s = Inr ((resp, None), s')
           \<and> StatusCode resp \<in> statusCodes
           \<and> (HTTPMethod request \<noteq> MethodOptions \<longrightarrow>
                (\<forall>e. snd (fst (routeSwitch env request userRepo s)) = Some e \<longrightarrow>
                   marshalFailure env e
                   \<and> StatusCode resp = StatusInternalServerError
                   \<and> jsonMarshal env (JMap [(''error'', e)]) = Inr (Body resp)))"
proof (cases "HTTPMethod request = MethodOptions")
  case True
  from Router_options [OF True] show ?thesis
    using True by fastforce
next
  case False
  obtain response err s' where rs: "routeSwitch env request userRepo s = ((response, err), s')"
    by (metis prod.exhaust)
  have st: "settled env (response, err)"
    using routeSwitch_settled [of env request userRepo s] by (simp add: rs)
  show ?thesis
  proof (cases err)
    case None
    with st have "StatusCode response \<in> statusCodes"
      by (simp add: settled_def)
    with Router_passes [OF False rs [unfolded None]] show ?thesis
      using rs None by fastforce
  next
    case (Some e)
    with st have c: "StatusCode response = StatusInternalServerError" and f: "marshalFailure env e"
      by (simp_all add: settled_def)
    from maps obtain b where b: "jsonMarshal env (JMap [(''error'', e)]) = Inr b"
      by blast
    from Router_maps_error [OF False rs [unfolded Some] c b] show ?thesis
      using rs Some f b by fastforce
  qed
qed

lemma adapt_writes:
  assumes "handler (toAPIGatewayProxyRequest r) s = ((apiResp, None), s')"
      and "StatusCode apiResp \<in> statusCodes"
  shows "adapt handler r s =
           (Inr \<lparr>wHeader = (case Headers apiResp of None \<Rightarrow> Map.empty | Some m \<Rightarrow> m),
                 wStatus = StatusCode apiResp,
                 wBody = Body apiResp\<rparr>, s')"
  using assms
  by (auto simp: adapt_def Let_def WriteHeader_def Write_def newResponseWriter_def statusCodes_def)

lemma adapt_reports:
  assumes "handler (toAPIGatewayProxyRequest r) s = ((apiResp, Some e), s')"
  shows "adapt handler r s =
           (Inr \<lparr>wHeader = [''Content-Type'' \<mapsto> ''text/plain; charset=utf-8'',
                            ''X-Content-Type-Options'' \<mapsto> ''nosniff''],
                 wStatus = StatusInternalServerError,
                 wBody = e @ [CHR 0x0A]\<rparr>, s')"
  using assms
  by (simp add: adapt_def Let_def httpError_def WriteHeader_def Write_def newResponseWriter_def)

lemma registered_total:
  "\<exists>w s'. registered env userRepo p r s = (Inr w, s')
     \<and> wStatus w \<in> statusCodes
     \<and> (\<forall>e. snd (fst (registeredHandler env userRepo p (toAPIGatewayProxyRequest r) s)) = Some e \<longrightarrow>
           marshalFailure env e
           \<and> wStatus w = StatusInternalServerError
           \<and> wBody w = e @ [CHR 0x0A])"
proof -
  obtain apiResp err s' where
    h: "registeredHandler env userRepo p (toAPIGatewayProxyRequest r) s = ((apiResp, err), s')"
    by (metis prod.exhaust)
  have st: "settled env (apiResp, err)"
    using registeredHandler_settled [of env userRepo p "toAPIGatewayProxyRequest r" s]
    by (simp add: h)
  show ?thesis
  proof (cases err)
    case None
    with st have c: "StatusCode apiResp \<in> statusCodes"
      by (simp add: settled_def)
    show ?thesis
      using adapt_writes [where handler = "registeredHandler env userRepo p", OF h [unfolded None] c] c h None
      by (simp add: registered_def)
  next
    case (Some e)
    with st have f: "marshalFailure env e"
      by (simp add: settled_def)
    show ?thesis
      using adapt_reports [where handler = "registeredHandler env userRepo p", OF h [unfolded Some]] f h Some
      by (simp add: registered_def)
  qed
qed

lemma APIResponse_failure:
  assumes "jsonMarshal env v = Inl m" and "v \<noteq> JNil"
  shows \<open>APIResponse env code v =
           (\<lparr>StatusCode = StatusInternalServerError,
             Headers = Some [''Content-Type'' \<mapsto> ''application/json''],
             MultiValueHeaders = Some Map.empty,
             Body = ''{"error": "'' @ m @ ''"}'',
             IsBase64Encoded = False\<rparr>,
            Some (''failed to marshal response body: '' @ m))\<close>
  using assms by (cases v) (simp_all add: APIResponse_def)

section \<open>Verified properties\<close>

subsection \<open>C1: an empty patch is rejected\<close>

text \<open>
  Claim C1, as the code has it. \<^verbatim>\<open>UpdateUserHandler\<close> looks at the \<^verbatim>\<open>id\<close> path parameter
  before it looks at the body. For a request that carries a non-empty id and whose body
  decodes to the empty patch (name and email both empty), it answers 400 with the
  encoding of \<^verbatim>\<open>{"error":"no fields to update"}\<close> and returns the store it was given,
  for every repository: no repository operation can have run. (Without an id the answer
  is the 400 of claim C9, with another message; see the counterexample below.)
\<close>

theorem empty_patch_rejected:
  assumes "PathParameters request ''id'' = Some uid" and "uid \<noteq> []"
      and "jsonUnmarshal env (RequestBody request) = Inr \<lparr>ReqName = [], ReqEmail = []\<rparr>"
      and "jsonMarshal env (JMap [(''error'', ''no fields to update'')]) = Inr body"
  shows "UpdateUserHandler env h request s =
           ((\<lparr>StatusCode = 400,
              Headers = Some [''Content-Type'' \<mapsto> ''application/json''],
              MultiValueHeaders = None,
              Body = body,
              IsBase64Encoded = False\<rparr>, None), s)"
  using assms(1-3)
  by (simp add: UpdateUserHandler_def index_def Validate_def ErrorResponse_encoded [OF assms(4)])

theorem empty_patch_rejected_witness:
  \<open>PathParameters (sampleRequest ''PUT'' ''/users/{id}'' [''id'' \<mapsto> ''1'']
       ''{"name":"","email":""}'') ''id'' = Some ''1''
   \<and> ''1'' \<noteq> []
   \<and> jsonUnmarshal sampleEnv (RequestBody (sampleRequest ''PUT'' ''/users/{id}'' [''id'' \<mapsto> ''1'']
       ''{"name":"","email":""}'')) = Inr \<lparr>ReqName = [], ReqEmail = []\<rparr>
   \<and> jsonMarshal sampleEnv (JMap [(''error'', ''no fields to update'')])
       = Inr ''{"error":"no fields to update"}''
   \<and> UpdateUserHandler sampleEnv (NewUserHandler (NewInMemoryUserRepository sampleIter))
         (sampleRequest ''PUT'' ''/users/{id}'' [''id'' \<mapsto> ''1''] ''{"name":"","email":""}'')
         [''1'' \<mapsto> alice] =
           ((\<lparr>StatusCode = 400,
              Headers = Some [''Content-Type'' \<mapsto> ''application/json''],
              MultiValueHeaders = None,
              Body = ''{"error":"no fields to update"}'',
              IsBase64Encoded = False\<rparr>, None), [''1'' \<mapsto> alice])\<close>
proof -
  have a: \<open>PathParameters (sampleRequest ''PUT'' ''/users/{id}'' [''id'' \<mapsto> ''1'']
       ''{"name":"","email":""}'') ''id'' = Some ''1''\<close>
    by (simp add: sampleRequest_def)
  have b: "''1'' \<noteq> []" by simp
  have c: \<open>jsonUnmarshal sampleEnv (RequestBody (sampleRequest ''PUT'' ''/users/{id}'' [''id'' \<mapsto> ''1'']
       ''{"name":"","email":""}'')) = Inr \<lparr>ReqName = [], ReqEmail = []\<rparr>\<close>
    by (simp add: sampleRequest_def sampleEnv_def decodeSample_def)
  have d: \<open>jsonMarshal sampleEnv (JMap [(''error'', ''no fields to update'')])
       = Inr ''{"error":"no fields to update"}''\<close>
    by (simp add: sampleEnv_def)
  show ?thesis
    using a b c d
      empty_patch_rejected [OF a b c d, of "NewUserHandler (NewInMemoryUserRepository sampleIter)"
        "[''1'' \<mapsto> alice]"]
    by simp
qed

text \<open>
  The claim as first stated, for every request with the empty patch as its body, fails
  at a request without an id: the body of the answer is then
  \<^verbatim>\<open>{"error":"user ID is required"}\<close>.
\<close>

theorem empty_patch_without_id_counterexample:
  \<open>jsonUnmarshal sampleEnv (RequestBody (sampleRequest ''PUT'' ''/users/{id}'' Map.empty
       ''{"name":"","email":""}'')) = Inr \<lparr>ReqName = [], ReqEmail = []\<rparr>
   \<and> UpdateUserHandler sampleEnv (NewUserHandler (NewInMemoryUserRepository sampleIter))
         (sampleRequest ''PUT'' ''/users/{id}'' Map.empty ''{"name":"","email":""}'')
         [''1'' \<mapsto> alice] =
           ((\<lparr>StatusCode = 400,
              Headers = Some [''Content-Type'' \<mapsto> ''application/json''],
              MultiValueHeaders = None,
              Body = ''{"error":"user ID is required"}'',
              IsBase64Encoded = False\<rparr>, None), [''1'' \<mapsto> alice])
   \<and> ''{"error":"user ID is required"}'' \<noteq> ''{"error":"no fields to update"}''\<close>
  by (simp add: sampleRequest_def sampleEnv_def decodeSample_def UpdateUserHandler_def index_def
        ErrorResponse_def EnsureHeaders_def)

subsection \<open>C2: create, then get\<close>




subsection \<open>C3: what an update changes\<close>

text \<open>
  Claim C3, as the code has it. For a user stored under its own non-empty id and an
  update request naming that id whose body has a non-empty name or a non-empty email,
  \<^verbatim>\<open>UpdateUserHandler\<close> over the in-memory repository answers 200 with the encoding of the
  updated user and stores that user under the same id. The updated user keeps the id
  and \<^verbatim>\<open>created_at\<close> of the stored one; its name is the request's name when that is
  non-empty and the stored name otherwise, and likewise its email. An empty field of the
  request therefore leaves the stored field as it was: the update is a patch of the
  non-empty fields, not a replacement of both.
\<close>

theorem update_patches:
  assumes "users (ID u) = Some u" and "ID u \<noteq> []"
      and "PathParameters request ''id'' = Some (ID u)"
      and "jsonUnmarshal env (RequestBody request) = Inr userReq"
      and "ReqName userReq \<noteq> [] \<or> ReqEmail userReq \<noteq> []"
      and "u' = u\<lparr>Name := (if ReqName userReq \<noteq> [] then ReqName userReq else Name u),
                  Email := (if ReqEmail userReq \<noteq> [] then ReqEmail userReq else Email u)\<rparr>"
      and "jsonMarshal env (JUser u') = Inr body"
  shows "UpdateUserHandler env (NewUserHandler (NewInMemoryUserRepository iter)) request users =
           ((\<lparr>StatusCode = 200,
              Headers = Some [''Content-Type'' \<mapsto> ''application/json''],
              MultiValueHeaders = Some Map.empty,
              Body = body,
              IsBase64Encoded = False\<rparr>, None), users(ID u \<mapsto> u'))
       \<and> ID u' = ID u \<and> CreatedAt u' = CreatedAt u
       \<and> inMemoryUserRepository_GetUserByID (ID u) (users(ID u \<mapsto> u')) = (Inr u', users(ID u \<mapsto> u'))"
proof -
  have v: "Validate userReq True = None"
    using assms(5) by (auto simp: Validate_def)
  have i: "index (PathParameters request) ''id'' = ID u"
    using assms(3) by (simp add: index_def)
  have r: "APIResponse env 200 (JUser u') =
           (\<lparr>StatusCode = 200,
              Headers = Some [''Content-Type'' \<mapsto> ''application/json''],
              MultiValueHeaders = Some Map.empty,
              Body = body,
              IsBase64Encoded = False\<rparr>, None)"
    using APIResponse_encoded [OF assms(7), of 200] by simp
  have "UpdateUserHandler env (NewUserHandler (NewInMemoryUserRepository iter)) request users =
          (APIResponse env 200 (JUser u'), users(ID u \<mapsto> u'))"
    using assms(1,2,4,6) v i
    by (simp add: UpdateUserHandler_def NewUserHandler_def NewInMemoryUserRepository_def
          inMemoryUserRepository_GetUserByID_def inMemoryUserRepository_UpdateUser_def Let_def)
  moreover have "ID u' = ID u" and "CreatedAt u' = CreatedAt u"
    using assms(6) by simp_all
  ultimately show ?thesis
    by (simp add: r inMemoryUserRepository_GetUserByID_def)
qed

theorem update_patches_witness:
  \<open>[''1'' \<mapsto> alice] (ID alice) = Some alice \<and> ID alice \<noteq> []
   \<and> PathParameters (sampleRequest ''PUT'' ''/users/{id}'' [''id'' \<mapsto> ''1'']
         ''{"name":"Bob","email":""}'') ''id'' = Some (ID alice)
   \<and> jsonUnmarshal sampleEnv (RequestBody (sampleRequest ''PUT'' ''/users/{id}'' [''id'' \<mapsto> ''1'']
         ''{"name":"Bob","email":""}'')) = Inr \<lparr>ReqName = ''Bob'', ReqEmail = []\<rparr>
   \<and> jsonMarshal sampleEnv (JUser (alice\<lparr>Name := ''Bob''\<rparr>))
       = Inr ''{"id":"1","name":"Bob","email":"alice@example.com"}''
   \<and> UpdateUserHandler sampleEnv (NewUserHandler (NewInMemoryUserRepository sampleIter))
         (sampleRequest ''PUT'' ''/users/{id}'' [''id'' \<mapsto> ''1''] ''{"name":"Bob","email":""}'')
         [''1'' \<mapsto> alice] =
           ((\<lparr>StatusCode = 200,
              Headers = Some [''Content-Type'' \<mapsto> ''application/json''],
              MultiValueHeaders = Some Map.empty,
              Body = ''{"id":"1","name":"Bob","email":"alice@example.com"}'',
              IsBase64Encoded = False\<rparr>, None), [''1'' \<mapsto> alice\<lparr>Name := ''Bob''\<rparr>])
   \<and> inMemoryUserRepository_GetUserByID ''1'' [''1'' \<mapsto> alice\<lparr>Name := ''Bob''\<rparr>]
       = (Inr (alice\<lparr>Name := ''Bob''\<rparr>), [''1'' \<mapsto> alice\<lparr>Name := ''Bob''\<rparr>])\<close>
proof -
  have a: "[''1'' \<mapsto> alice] (ID alice) = Some alice" and b: "ID alice \<noteq> []"
    by (simp_all add: alice_def)
  have c: \<open>PathParameters (sampleRequest ''PUT'' ''/users/{id}'' [''id'' \<mapsto> ''1'']
         ''{"name":"Bob","email":""}'') ''id'' = Some (ID alice)\<close>
    by (simp add: sampleRequest_def alice_def)
  have d: \<open>jsonUnmarshal sampleEnv (RequestBody (sampleRequest ''PUT'' ''/users/{id}'' [''id'' \<mapsto> ''1'']
         ''{"name":"Bob","email":""}'')) = Inr \<lparr>ReqName = ''Bob'', ReqEmail = []\<rparr>\<close>
    by (simp add: sampleRequest_def sampleEnv_def decodeSample_def)
  have e: "ReqName \<lparr>ReqName = ''Bob'', ReqEmail = []\<rparr> \<noteq> []
           \<or> ReqEmail \<lparr>ReqName = ''Bob'', ReqEmail = []\<rparr> \<noteq> []"
    by simp
  have f: "alice\<lparr>Name := ''Bob''\<rparr> =
      alice\<lparr>Name := (if ReqName \<lparr>ReqName = ''Bob'', ReqEmail = []\<rparr> \<noteq> []
                      then ReqName \<lparr>ReqName = ''Bob'', ReqEmail = []\<rparr> else Name alice),
            Email := (if ReqEmail \<lparr>ReqName = ''Bob'', ReqEmail = []\<rparr> \<noteq> []
                      then ReqEmail \<lparr>ReqName = ''Bob'', ReqEmail = []\<rparr> else Email alice)\<rparr>"
    by simp
  have g: \<open>jsonMarshal sampleEnv (JUser (alice\<lparr>Name := ''Bob''\<rparr>))
       = Inr ''{"id":"1","name":"Bob","email":"alice@example.com"}''\<close>
    by (simp add: sampleEnv_def alice_def)
  have i: "ID alice = ''1''"
    by (simp add: alice_def)
  show ?thesis
    using a b c d g
      update_patches [where users = "[''1'' \<mapsto> alice]" and u = alice and env = sampleEnv
        and iter = sampleIter, OF a b c d e f g]
    by (simp add: i)
qed

text \<open>
  The claim as first stated, a full replacement of name and email by the values of the
  request body, fails for the body \<^verbatim>\<open>{"name":"Bob","email":""}\<close>: the request is valid, and
  the stored email stays \<^verbatim>\<open>alice@example.com\<close> instead of becoming empty.
\<close>

theorem update_keeps_empty_fields_counterexample:
  \<open>jsonUnmarshal sampleEnv (RequestBody (sampleRequest ''PUT'' ''/users/{id}'' [''id'' \<mapsto> ''1'']
         ''{"name":"Bob","email":""}'')) = Inr \<lparr>ReqName = ''Bob'', ReqEmail = []\<rparr>
   \<and> Validate \<lparr>ReqName = ''Bob'', ReqEmail = []\<rparr> True = None
   \<and> snd (UpdateUserHandler sampleEnv (NewUserHandler (NewInMemoryUserRepository sampleIter))
         (sampleRequest ''PUT'' ''/users/{id}'' [''id'' \<mapsto> ''1''] ''{"name":"Bob","email":""}'')
         [''1'' \<mapsto> alice]) ''1''
       = Some \<lparr>ID = ''1'', Name = ''Bob'', Email = ''alice@example.com'', CreatedAt = 1\<rparr>
   \<and> ''alice@example.com'' \<noteq> ReqEmail \<lparr>ReqName = ''Bob'', ReqEmail = []\<rparr>\<close>
  by (simp add: sampleRequest_def sampleEnv_def decodeSample_def alice_def Validate_def
        UpdateUserHandler_def index_def NewUserHandler_def NewInMemoryUserRepository_def
        inMemoryUserRepository_GetUserByID_def inMemoryUserRepository_UpdateUser_def
        APIResponse_def EnsureHeaders_def Let_def)

subsection \<open>C4: delete twice\<close>

text \<open>
  Claim C4. For an id present in the in-memory repository, \<^verbatim>\<open>DeleteUserHandler\<close> answers
  204 with an empty body and leaves the store without that id; the same call on the
  store it left answers 404 with the encoding of \<^verbatim>\<open>{"error":"user not found"}\<close> and
  changes nothing.
\<close>

theorem delete_twice:
  assumes "users uid = Some u" and "uid \<noteq> []"
      and "PathParameters request ''id'' = Some uid"
      and "jsonMarshal env (JMap [(''error'', ''user not found'')]) = Inr body"
  shows "DeleteUserHandler env (NewUserHandler (NewInMemoryUserRepository iter)) request users =
           ((\<lparr>StatusCode = 204,
              Headers = Some [''Content-Type'' \<mapsto> ''application/json''],
              MultiValueHeaders = Some Map.empty,
              Body = [],
              IsBase64Encoded = False\<rparr>, None), users(uid := None))
       \<and> DeleteUserHandler env (NewUserHandler (NewInMemoryUserRepository iter)) request
           (users(uid := None)) =
           ((\<lparr>StatusCode = 404,
              Headers = Some [''Content-Type'' \<mapsto> ''application/json''],
              MultiValueHeaders = None,
              Body = body,
              IsBase64Encoded = False\<rparr>, None), users(uid := None))"
proof -
  have i: "index (PathParameters request) ''id'' = uid"
    using assms(3) by (simp add: index_def)
  show ?thesis
    using assms(1,2) i
    by (simp add: DeleteUserHandler_def NewUserHandler_def NewInMemoryUserRepository_def
          inMemoryUserRepository_DeleteUser_def APIResponse_nil
          ErrorResponse_encoded [OF assms(4)])
qed

theorem delete_twice_witness:
  \<open>[''1'' \<mapsto> alice] ''1'' = Some alice \<and> ''1'' \<noteq> []
   \<and> PathParameters (sampleRequest ''DELETE'' ''/users/{id}'' [''id'' \<mapsto> ''1''] []) ''id'' = Some ''1''
   \<and> jsonMarshal sampleEnv (JMap [(''error'', ''user not found'')]) = Inr ''{"error":"user not found"}''
   \<and> DeleteUserHandler sampleEnv (NewUserHandler (NewInMemoryUserRepository sampleIter))
         (sampleRequest ''DELETE'' ''/users/{id}'' [''id'' \<mapsto> ''1''] []) [''1'' \<mapsto> alice] =
           ((\<lparr>StatusCode = 204,
              Headers = Some [''Content-Type'' \<mapsto> ''application/json''],
              MultiValueHeaders = Some Map.empty,
              Body = [],
              IsBase64Encoded = False\<rparr>, None), Map.empty)
   \<and> DeleteUserHandler sampleEnv (NewUserHandler (NewInMemoryUserRepository sampleIter))
         (sampleRequest ''DELETE'' ''/users/{id}'' [''id'' \<mapsto> ''1''] []) Map.empty =
           ((\<lparr>StatusCode = 404,
              Headers = Some [''Content-Type'' \<mapsto> ''application/json''],
              MultiValueHeaders = None,
              Body = ''{"error":"user not found"}'',
              IsBase64Encoded = False\<rparr>, None), Map.empty)\<close>
proof -
  have a: "[''1'' \<mapsto> alice] ''1'' = Some alice" by simp
  have b: "''1'' \<noteq> []" by simp
  have c: "PathParameters (sampleRequest ''DELETE'' ''/users/{id}'' [''id'' \<mapsto> ''1''] []) ''id'' = Some ''1''"
    by (simp add: sampleRequest_def)
  have d: \<open>jsonMarshal sampleEnv (JMap [(''error'', ''user not found'')]) = Inr ''{"error":"user not found"}''\<close>
    by (simp add: sampleEnv_def)
  show ?thesis
    using a b c d
      delete_twice [where users = "[''1'' \<mapsto> alice]" and uid = "''1''" and u = alice
        and env = sampleEnv and iter = sampleIter, OF a b c d]
    by simp
qed

subsection \<open>C5: dispatch always answers\<close>

text \<open>
  Claim C5. Provided \<^verbatim>\<open>jsonMarshal\<close> encodes every string map, which \<^verbatim>\<open>json.Marshal\<close> does,
  \<^verbatim>\<open>Router\<close> returns a response and a nil error for every request, repository and store:
  it neither panics nor passes an error on, and the status is one of the six the program
  uses. When the routed handler reports that its response body failed to encode, the
  response of \<^verbatim>\<open>Router\<close> has status 500 and the encoding of \<^verbatim>\<open>{"error": <that error>}\<close> as
  its body. In the local server, each of the six registered handlers, once adapted,
  writes a response for every request (the status it writes is never one
  \<^verbatim>\<open>WriteHeader\<close> refuses), and a handler's error is written as status 500 with the
  error text as the body. \<^verbatim>\<open>APIResponse\<close> itself answers a body that fails to encode
  with status 500, a body naming the failure, and the error.
\<close>

theorem dispatch_total:
  assumes "\<And>m. \<exists>b. jsonMarshal env (JMap m) = Inr b"
  shows \<open>(\<exists>resp s'. Router env request userRepo s = Inr ((resp, None), s')
            \<and> StatusCode resp \<in> statusCodes
            \<and> (HTTPMethod request \<noteq> MethodOptions \<longrightarrow>
                 (\<forall>e. snd (fst (routeSwitch env request userRepo s)) = Some e \<longrightarrow>
                    (\<exists>v m. jsonMarshal env v = Inl m
                        \<and> e = ''failed to marshal response body: '' @ m)
                    \<and> StatusCode resp = StatusInternalServerError
                    \<and> jsonMarshal env (JMap [(''error'', e)]) = Inr (Body resp))))
       \<and> (\<exists>w s'. registered env userRepo p r s = (Inr w, s')
            \<and> wStatus w \<in> statusCodes
            \<and> (\<forall>e. snd (fst (registeredHandler env userRepo p (toAPIGatewayProxyRequest r) s)) = Some e \<longrightarrow>
                  (\<exists>v m. jsonMarshal env v = Inl m
                        \<and> e = ''failed to marshal response body: '' @ m)
                  \<and> wStatus w = StatusInternalServerError
                  \<and> wBody w = e @ [CHR 0x0A]))
       \<and> (\<forall>v m code. v \<noteq> JNil \<and> jsonMarshal env v = Inl m \<longrightarrow>
            APIResponse env code v =
              (\<lparr>StatusCode = StatusInternalServerError,
                Headers = Some [''Content-Type'' \<mapsto> ''application/json''],
                MultiValueHeaders = Some Map.empty,
                Body = ''{"error": "'' @ m @ ''"}'',
                IsBase64Encoded = False\<rparr>,
               Some (''failed to marshal response body: '' @ m)))\<close>
proof (intro conjI)
  show "\<exists>resp s'. Router env request userRepo s = Inr ((resp, None), s')
            \<and> StatusCode resp \<in> statusCodes
            \<and> (HTTPMethod request \<noteq> MethodOptions \<longrightarrow>
                 (\<forall>e. snd (fst (routeSwitch env request userRepo s)) = Some e \<longrightarrow>
                    (\<exists>v m. jsonMarshal env v = Inl m
                        \<and> e = ''failed to marshal response body: '' @ m)
                    \<and> StatusCode resp = StatusInternalServerError
                    \<and> jsonMarshal env (JMap [(''error'', e)]) = Inr (Body resp)))"
    using Router_total [OF assms, of request userRepo s] by (simp only: marshalFailure_def)
next
  show "\<exists>w s'. registered env userRepo p r s = (Inr w, s')
            \<and> wStatus w \<in> statusCodes
            \<and> (\<forall>e. snd (fst (registeredHandler env userRepo p (toAPIGatewayProxyRequest r) s)) = Some e \<longrightarrow>
                  (\<exists>v m. jsonMarshal env v = Inl m
                        \<and> e = ''failed to marshal response body: '' @ m)
                  \<and> wStatus w = StatusInternalServerError
                  \<and> wBody w = e @ [CHR 0x0A])"
    using registered_total [of env userRepo p r s] by (simp only: marshalFailure_def)
next
  show \<open>\<forall>v m code. v \<noteq> JNil \<and> jsonMarshal env v = Inl m \<longrightarrow>
            APIResponse env code v =
              (\<lparr>StatusCode = StatusInternalServerError,
                Headers = Some [''Content-Type'' \<mapsto> ''application/json''],
                MultiValueHeaders = Some Map.empty,
                Body = ''{"error": "'' @ m @ ''"}'',
                IsBase64Encoded = False\<rparr>,
               Some (''failed to marshal response body: '' @ m))\<close>
    using APIResponse_failure by blast
qed

theorem dispatch_total_witness:
  \<open>(\<forall>m. \<exists>b. jsonMarshal sampleEnv (JMap m) = Inr b)
   \<and> jsonMarshal sampleEnv (JUsers [alice]) = Inl ''json: unsupported value''
   \<and> Router sampleEnv (sampleRequest ''GET'' ''/users'' Map.empty [])
        (NewInMemoryUserRepository sampleIter) [''1'' \<mapsto> alice] =
        Inr ((\<lparr>StatusCode = 500,
               Headers = Some [''Content-Type'' \<mapsto> ''application/json'',
                               ''Access-Control-Allow-Origin'' \<mapsto> ''*'',
                               ''Access-Control-Allow-Methods'' \<mapsto> ''GET,POST,PUT,DELETE,OPTIONS'',
                               ''Access-Control-Allow-Headers'' \<mapsto>
                                 ''Content-Type,Authorization,X-Amz-Date,X-Api-Key,X-Amz-Security-Token'',
                               ''Access-Control-Allow-Credentials'' \<mapsto> ''true''],
               MultiValueHeaders = None,
               Body = ''{"error":"failed to marshal response body: json: unsupported value"}'',
               IsBase64Encoded = False\<rparr>, None), [''1'' \<mapsto> alice])
   \<and> registered sampleEnv (NewInMemoryUserRepository sampleIter) GET_users
        (sampleHttpRequest ''GET'' ''/users'' []) [''1'' \<mapsto> alice] =
        (Inr \<lparr>wHeader = [''Content-Type'' \<mapsto> ''text/plain; charset=utf-8'',
                         ''X-Content-Type-Options'' \<mapsto> ''nosniff''],
              wStatus = 500,
              wBody = ''failed to marshal response body: json: unsupported value'' @ [CHR 0x0A]\<rparr>,
         [''1'' \<mapsto> alice])\<close>
proof -
  have a: "\<And>m. \<exists>b. jsonMarshal sampleEnv (JMap m) = Inr b"
    by (simp add: sampleEnv_def)
  have l: "inMemoryUserRepository_GetAllUsers sampleIter [''1'' \<mapsto> alice]
             = ([alice], [''1'' \<mapsto> alice])"
    by (simp add: inMemoryUserRepository_GetAllUsers_def sampleIter_def)
  have g: \<open>GetAllUsersHandler sampleEnv (NewUserHandler (NewInMemoryUserRepository sampleIter)) request
             [''1'' \<mapsto> alice]
           = ((\<lparr>StatusCode = 500,
                 Headers = Some [''Content-Type'' \<mapsto> ''application/json''],
                 MultiValueHeaders = Some Map.empty,
                 Body = ''{"error": "json: unsupported value"}'',
                 IsBase64Encoded = False\<rparr>,
               Some ''failed to marshal response body: json: unsupported value''),
              [''1'' \<mapsto> alice])\<close> for request
    by (simp add: GetAllUsersHandler_def NewUserHandler_def NewInMemoryUserRepository_def l
          APIResponse_def sampleEnv_def)
  have e: \<open>ErrorResponse sampleEnv 500 (Some ''failed to marshal response body: json: unsupported value'')
           = (\<lparr>StatusCode = 500,
                Headers = Some [''Content-Type'' \<mapsto> ''application/json''],
                MultiValueHeaders = None,
                Body = ''{"error":"failed to marshal response body: json: unsupported value"}'',
                IsBase64Encoded = False\<rparr>, None)\<close>
    by (simp add: ErrorResponse_def EnsureHeaders_def sampleEnv_def)
  have s: "routeSwitch sampleEnv (sampleRequest ''GET'' ''/users'' Map.empty [])
             (NewInMemoryUserRepository sampleIter) [''1'' \<mapsto> alice]
           = GetAllUsersHandler sampleEnv (NewUserHandler (NewInMemoryUserRepository sampleIter))
               (sampleRequest ''GET'' ''/users'' Map.empty []) [''1'' \<mapsto> alice]"
    by (simp add: routeSwitch_def sampleRequest_def handleGetAllUsers_def)
  have m: "HTTPMethod (sampleRequest ''GET'' ''/users'' Map.empty []) \<noteq> MethodOptions"
    by (simp add: sampleRequest_def)
  have router: \<open>Router sampleEnv (sampleRequest ''GET'' ''/users'' Map.empty [])
        (NewInMemoryUserRepository sampleIter) [''1'' \<mapsto> alice] =
        Inr ((\<lparr>StatusCode = 500,
               Headers = Some [''Content-Type'' \<mapsto> ''application/json'',
                               ''Access-Control-Allow-Origin'' \<mapsto> ''*'',
                               ''Access-Control-Allow-Methods'' \<mapsto> ''GET,POST,PUT,DELETE,OPTIONS'',
                               ''Access-Control-Allow-Headers'' \<mapsto>
                                 ''Content-Type,Authorization,X-Amz-Date,X-Api-Key,X-Amz-Security-Token'',
                               ''Access-Control-Allow-Credentials'' \<mapsto> ''true''],
               MultiValueHeaders = None,
               Body = ''{"error":"failed to marshal response body: json: unsupported value"}'',
               IsBase64Encoded = False\<rparr>, None), [''1'' \<mapsto> alice])\<close>
    using m by (simp add: Router_def s g e commonHeaders_def)
  have served: \<open>registered sampleEnv (NewInMemoryUserRepository sampleIter) GET_users
        (sampleHttpRequest ''GET'' ''/users'' []) [''1'' \<mapsto> alice] =
        (Inr \<lparr>wHeader = [''Content-Type'' \<mapsto> ''text/plain; charset=utf-8'',
                         ''X-Content-Type-Options'' \<mapsto> ''nosniff''],
              wStatus = 500,
              wBody = ''failed to marshal response body: json: unsupported value'' @ [CHR 0x0A]\<rparr>,
         [''1'' \<mapsto> alice])\<close>
    by (simp add: registered_def adapt_def g httpError_def WriteHeader_def Write_def
          newResponseWriter_def)
  have f: "jsonMarshal sampleEnv (JUsers [alice]) = Inl ''json: unsupported value''"
    by (simp add: sampleEnv_def)
  show ?thesis
    using a f router served
      dispatch_total [where env = sampleEnv
        and request = "sampleRequest ''GET'' ''/users'' Map.empty []"
        and userRepo = "NewInMemoryUserRepository sampleIter"
        and s = "[''1'' \<mapsto> alice]" and p = GET_users
        and r = "sampleHttpRequest ''GET'' ''/users'' []", OF a]
    by simp
qed

subsection \<open>C6: listing never fails\<close>

text \<open>
  Claim C6. \<^verbatim>\<open>GetAllUsers\<close> returns a list in every case. Over DynamoDB it returns the
  empty list when the scan fails and when the scanned items fail to decode, and the
  decoded users otherwise. Over the in-memory map it returns the stored users, one for
  each key, and leaves the map as it was.
\<close>

theorem list_degrades:
  "(Scan d = (Inl e, d') \<longrightarrow>
      dynamoDBUserRepository_GetAllUsers Scan UnmarshalListOfMaps d = ([], d'))
   \<and> (Scan d = (Inr items, d') \<and> UnmarshalListOfMaps items = Inl e \<longrightarrow>
      dynamoDBUserRepository_GetAllUsers Scan UnmarshalListOfMaps d = ([], d'))
   \<and> (Scan d = (Inr items, d') \<and> UnmarshalListOfMaps items = Inr us \<longrightarrow>
      dynamoDBUserRepository_GetAllUsers Scan UnmarshalListOfMaps d = (us, d'))
   \<and> (ranges iter users \<longrightarrow>
      snd (inMemoryUserRepository_GetAllUsers iter users) = users
      \<and> length (fst (inMemoryUserRepository_GetAllUsers iter users)) = card (dom users)
      \<and> set (fst (inMemoryUserRepository_GetAllUsers iter users)) = ran users)"
  by (simp add: dynamoDBUserRepository_GetAllUsers_def inMemoryUserRepository_GetAllUsers_def
        appendAll_eq ranges_length ranges_values del: set_map)

theorem list_degrades_witness:
  "dynamoDBUserRepository_GetAllUsers (\<lambda>d. (Inl ''scan failed'', d)) (\<lambda>items::unit list. Inr [alice]) (0::nat)
     = (([]::User list), 0)
   \<and> dynamoDBUserRepository_GetAllUsers (\<lambda>d. (Inr [(), ()], d)) (\<lambda>items. Inl ''bad item'') (0::nat)
     = (([]::User list), 0)
   \<and> dynamoDBUserRepository_GetAllUsers (\<lambda>d. (Inr [(), ()], d)) (\<lambda>items. Inr [alice, bob]) (0::nat)
     = ([alice, bob], 0)
   \<and> ranges sampleIter [''1'' \<mapsto> alice, ''2'' \<mapsto> bob]
   \<and> snd (inMemoryUserRepository_GetAllUsers sampleIter [''1'' \<mapsto> alice, ''2'' \<mapsto> bob])
     = [''1'' \<mapsto> alice, ''2'' \<mapsto> bob]
   \<and> length (fst (inMemoryUserRepository_GetAllUsers sampleIter [''1'' \<mapsto> alice, ''2'' \<mapsto> bob])) = 2
   \<and> set (fst (inMemoryUserRepository_GetAllUsers sampleIter [''1'' \<mapsto> alice, ''2'' \<mapsto> bob]))
     = {alice, bob}"
proof -
  have r: "ranges sampleIter [''1'' \<mapsto> alice, ''2'' \<mapsto> bob]"
    by (simp add: ranges_def sampleIter_def fun_eq_iff)
  have c: "card (dom [''1'' \<mapsto> alice, ''2'' \<mapsto> bob]) = 2"
    by simp
  have v: "ran [''1'' \<mapsto> alice, ''2'' \<mapsto> bob] = {alice, bob}"
    by (simp add: ran_map_upd insert_commute)
  show ?thesis
    using r c v
      list_degrades [where Scan = "\<lambda>d. (Inl ''scan failed'', d)" and d = "0::nat" and d' = 0
        and e = "''scan failed''" and UnmarshalListOfMaps = "\<lambda>items::unit list. Inr [alice]"
        and iter = sampleIter and users = "[''1'' \<mapsto> alice, ''2'' \<mapsto> bob]"]
      list_degrades [where Scan = "\<lambda>d. (Inr [(), ()], d)" and d = "0::nat" and d' = 0
        and e = "''bad item''" and items = "[(), ()]"
        and UnmarshalListOfMaps = "\<lambda>items. Inl ''bad item''"
        and iter = sampleIter and users = "[''1'' \<mapsto> alice, ''2'' \<mapsto> bob]"]
      list_degrades [where Scan = "\<lambda>d. (Inr [(), ()], d)" and d = "0::nat" and d' = 0
        and items = "[(), ()]" and us = "[alice, bob]"
        and UnmarshalListOfMaps = "\<lambda>items. Inr [alice, bob]"
        and iter = sampleIter and users = "[''1'' \<mapsto> alice, ''2'' \<mapsto> bob]"]
    by simp
qed

subsection \<open>C7: listing after N creates\<close>

text \<open>
  Claim C7. Starting from the empty in-memory repository, \<open>N\<close> calls of \<^verbatim>\<open>CreateUser\<close> with
  users of pairwise distinct ids all succeed, and \<^verbatim>\<open>GetAllUsers\<close> then returns exactly \<open>N\<close>
  users whose set is the set of the users created, in whichever order the map is
  ranged over.
\<close>

theorem list_after_creates:
  assumes "distinct (map ID us)"
      and "ranges iter (snd (createAll us Map.empty))"
  shows "fst (createAll us Map.empty) = map Inr us
       \<and> length (fst (inMemoryUserRepository_GetAllUsers iter (snd (createAll us Map.empty)))) = length us
       \<and> set (fst (inMemoryUserRepository_GetAllUsers iter (snd (createAll us Map.empty)))) = set us"
proof -
  let ?m = "snd (createAll us Map.empty)"
  have store: "?m = map_of (rev (map (\<lambda>u. (ID u, u)) us))"
    by (simp add: createAll_store)
  have listed: "fst (inMemoryUserRepository_GetAllUsers iter ?m) = map snd (iter ?m)"
    by (simp add: inMemoryUserRepository_GetAllUsers_def appendAll_eq)
  have "length (iter ?m) = card (dom ?m)"
    using assms(2) by (rule ranges_length)
  also have "\<dots> = card (ID ` set us)"
    by (simp only: store created_dom)
  also have "\<dots> = length us"
    using distinct_card[OF assms(1)] by simp
  finally have len: "length (iter ?m) = length us" .
  have "set (map snd (iter ?m)) = ran ?m"
    using assms(2) by (rule ranges_values)
  also have "\<dots> = set us"
    using assms(1) by (simp only: store created_ran)
  finally have vals: "set (map snd (iter ?m)) = set us" .
  show ?thesis
    using len vals by (simp only: listed createAll_results length_map)
qed

theorem list_after_creates_witness:
  "distinct (map ID [alice, bob])
   \<and> ranges (\<lambda>_. [(''2'', bob), (''1'', alice)]) (snd (createAll [alice, bob] Map.empty))
   \<and> fst (createAll [alice, bob] Map.empty) = [Inr alice, Inr bob]
   \<and> length (fst (inMemoryUserRepository_GetAllUsers (\<lambda>_. [(''2'', bob), (''1'', alice)])
        (snd (createAll [alice, bob] Map.empty)))) = 2
   \<and> set (fst (inMemoryUserRepository_GetAllUsers (\<lambda>_. [(''2'', bob), (''1'', alice)])
        (snd (createAll [alice, bob] Map.empty)))) = {alice, bob}"
proof -
  have d: "distinct (map ID [alice, bob])"
    by (simp add: alice_def bob_def)
  have r: "ranges (\<lambda>_. [(''2'', bob), (''1'', alice)]) (snd (createAll [alice, bob] Map.empty))"
    by (auto simp: ranges_def inMemoryUserRepository_CreateUser_def alice_def bob_def)
  show ?thesis
    using d r list_after_creates [OF d r] by simp
qed

subsection \<open>C8: the preflight answer\<close>

text \<open>
  Claim C8. For every request whose method is \<^verbatim>\<open>OPTIONS\<close>, whatever its path, body,
  repository and store, \<^verbatim>\<open>Router\<close> returns status 200, an empty body, no error, the store
  untouched, and exactly the fixed headers, among them
  \<^verbatim>\<open>Access-Control-Allow-Origin: *\<close>.
\<close>

theorem options_preflight:
  assumes "HTTPMethod request = ''OPTIONS''"
  shows "Router env request userRepo s =
           Inr ((\<lparr>StatusCode = 200,
                  Headers = Some [''Content-Type'' \<mapsto> ''application/json'',
                                  ''Access-Control-Allow-Origin'' \<mapsto> ''*'',
                                  ''Access-Control-Allow-Methods'' \<mapsto> ''GET,POST,PUT,DELETE,OPTIONS'',
                                  ''Access-Control-Allow-Headers'' \<mapsto>
                                    ''Content-Type,Authorization,X-Amz-Date,X-Api-Key,X-Amz-Security-Token'',
                                  ''Access-Control-Allow-Credentials'' \<mapsto> ''true''],
                  MultiValueHeaders = None,
                  Body = [],
                  IsBase64Encoded = False\<rparr>, None), s)"
proof -
  have "map_of commonHeaders =
          [''Content-Type'' \<mapsto> ''application/json'',
           ''Access-Control-Allow-Origin'' \<mapsto> ''*'',
           ''Access-Control-Allow-Methods'' \<mapsto> ''GET,POST,PUT,DELETE,OPTIONS'',
           ''Access-Control-Allow-Headers'' \<mapsto>
             ''Content-Type,Authorization,X-Amz-Date,X-Api-Key,X-Amz-Security-Token'',
           ''Access-Control-Allow-Credentials'' \<mapsto> ''true'']"
    by (rule ext) (simp add: commonHeaders_def)
  with assms show ?thesis
    by (simp add: Router_def)
qed

theorem options_preflight_witness:
  "HTTPMethod (sampleRequest ''OPTIONS'' ''/no/such/path'' Map.empty ''not json'') = ''OPTIONS''
   \<and> Router sampleEnv (sampleRequest ''OPTIONS'' ''/no/such/path'' Map.empty ''not json'')
        (NewInMemoryUserRepository sampleIter) [''1'' \<mapsto> alice] =
           Inr ((\<lparr>StatusCode = 200,
                  Headers = Some [''Content-Type'' \<mapsto> ''application/json'',
                                  ''Access-Control-Allow-Origin'' \<mapsto> ''*'',
                                  ''Access-Control-Allow-Methods'' \<mapsto> ''GET,POST,PUT,DELETE,OPTIONS'',
                                  ''Access-Control-Allow-Headers'' \<mapsto>
                                    ''Content-Type,Authorization,X-Amz-Date,X-Api-Key,X-Amz-Security-Token'',
                                  ''Access-Control-Allow-Credentials'' \<mapsto> ''true''],
                  MultiValueHeaders = None,
                  Body = [],
                  IsBase64Encoded = False\<rparr>, None), [''1'' \<mapsto> alice])"
proof -
  have a: "HTTPMethod (sampleRequest ''OPTIONS'' ''/no/such/path'' Map.empty ''not json'') = ''OPTIONS''"
    by (simp add: sampleRequest_def)
  show ?thesis
    using a options_preflight [OF a, of sampleEnv "NewInMemoryUserRepository sampleIter"
      "[''1'' \<mapsto> alice]"]
    by simp
qed

subsection \<open>C9: a missing id is rejected\<close>

text \<open>
  Claim C9. When the \<^verbatim>\<open>id\<close> path parameter is absent or empty, each of
  \<^verbatim>\<open>GetUserHandler\<close>, \<^verbatim>\<open>UpdateUserHandler\<close> and \<^verbatim>\<open>DeleteUserHandler\<close> answers 400 with the
  encoding of \<^verbatim>\<open>{"error":"user ID is required"}\<close>. The answer and the returned store are the
  same for every repository and every store, so no repository operation is involved.
\<close>

theorem missing_id_rejected:
  assumes "PathParameters request ''id'' = None \<or> PathParameters request ''id'' = Some []"
      and "jsonMarshal env (JMap [(''error'', ''user ID is required'')]) = Inr body"
  shows "GetUserHandler env h request s =
           ((\<lparr>StatusCode = 400,
              Headers = Some [''Content-Type'' \<mapsto> ''application/json''],
              MultiValueHeaders = None,
              Body = body,
              IsBase64Encoded = False\<rparr>, None), s)
       \<and> UpdateUserHandler env h request s =
           ((\<lparr>StatusCode = 400,
              Headers = Some [''Content-Type'' \<mapsto> ''application/json''],
              MultiValueHeaders = None,
              Body = body,
              IsBase64Encoded = False\<rparr>, None), s)
       \<and> DeleteUserHandler env h request s =
           ((\<lparr>StatusCode = 400,
              Headers = Some [''Content-Type'' \<mapsto> ''application/json''],
              MultiValueHeaders = None,
              Body = body,
              IsBase64Encoded = False\<rparr>, None), s)"
proof -
  from assms(1) have "index (PathParameters request) ''id'' = []"
    by (auto simp: index_def)
  then show ?thesis
    by (simp add: GetUserHandler_def UpdateUserHandler_def DeleteUserHandler_def
          ErrorResponse_encoded [OF assms(2)])
qed

theorem missing_id_rejected_witness:
  \<open>(PathParameters (sampleRequest ''GET'' ''/users/{id}'' Map.empty []) ''id'' = None
      \<or> PathParameters (sampleRequest ''GET'' ''/users/{id}'' Map.empty []) ''id'' = Some [])
   \<and> (PathParameters (sampleRequest ''DELETE'' ''/users/{id}'' [''id'' \<mapsto> []] []) ''id'' = None
      \<or> PathParameters (sampleRequest ''DELETE'' ''/users/{id}'' [''id'' \<mapsto> []] []) ''id'' = Some [])
   \<and> jsonMarshal sampleEnv (JMap [(''error'', ''user ID is required'')])
       = Inr ''{"error":"user ID is required"}''
   \<and> GetUserHandler sampleEnv (NewUserHandler (NewInMemoryUserRepository sampleIter))
         (sampleRequest ''GET'' ''/users/{id}'' Map.empty []) [''1'' \<mapsto> alice] =
           ((\<lparr>StatusCode = 400,
              Headers = Some [''Content-Type'' \<mapsto> ''application/json''],
              MultiValueHeaders = None,
              Body = ''{"error":"user ID is required"}'',
              IsBase64Encoded = False\<rparr>, None), [''1'' \<mapsto> alice])
   \<and> UpdateUserHandler sampleEnv (NewUserHandler (NewInMemoryUserRepository sampleIter))
         (sampleRequest ''PUT'' ''/users/{id}'' Map.empty ''{"name":"Bob","email":""}'')
         [''1'' \<mapsto> alice] =
           ((\<lparr>StatusCode = 400,
              Headers = Some [''Content-Type'' \<mapsto> ''application/json''],
              MultiValueHeaders = None,
              Body = ''{"error":"user ID is required"}'',
              IsBase64Encoded = False\<rparr>, None), [''1'' \<mapsto> alice])
   \<and> DeleteUserHandler sampleEnv (NewUserHandler (NewInMemoryUserRepository sampleIter))
         (sampleRequest ''DELETE'' ''/users/{id}'' [''id'' \<mapsto> []] []) [''1'' \<mapsto> alice] =
           ((\<lparr>StatusCode = 400,
              Headers = Some [''Content-Type'' \<mapsto> ''application/json''],
              MultiValueHeaders = None,
              Body = ''{"error":"user ID is required"}'',
              IsBase64Encoded = False\<rparr>, None), [''1'' \<mapsto> alice])\<close>
proof -
  have absent: "PathParameters (sampleRequest verb ''/users/{id}'' Map.empty bytes) ''id'' = None
      \<or> PathParameters (sampleRequest verb ''/users/{id}'' Map.empty bytes) ''id'' = Some []" for verb bytes
    by (simp add: sampleRequest_def)
  have blank: "PathParameters (sampleRequest ''DELETE'' ''/users/{id}'' [''id'' \<mapsto> []] []) ''id'' = None
      \<or> PathParameters (sampleRequest ''DELETE'' ''/users/{id}'' [''id'' \<mapsto> []] []) ''id'' = Some []"
    by (simp add: sampleRequest_def)
  have encoded: \<open>jsonMarshal sampleEnv (JMap [(''error'', ''user ID is required'')])
       = Inr ''{"error":"user ID is required"}''\<close>
    by (simp add: sampleEnv_def)
  show ?thesis
    using absent [of "''GET''" "[]"] blank encoded
      missing_id_rejected [OF absent [of "''GET''" "[]"] encoded,
        of "NewUserHandler (NewInMemoryUserRepository sampleIter)" "[''1'' \<mapsto> alice]"]
      missing_id_rejected [OF absent [of "''PUT''" \<open>''{"name":"Bob","email":""}''\<close>] encoded,
        of "NewUserHandler (NewInMemoryUserRepository sampleIter)" "[''1'' \<mapsto> alice]"]
      missing_id_rejected [OF blank encoded,
        of "NewUserHandler (NewInMemoryUserRepository sampleIter)" "[''1'' \<mapsto> alice]"]
    by simp
qed

subsection \<open>C10: the in-memory create overwrites\<close>

text \<open>
  Claim C10. The in-memory \<^verbatim>\<open>CreateUser\<close> returns the user it was given and no error, for
  every store and every user; the store afterwards maps the user's id to that user,
  whatever was stored under the id before, and \<^verbatim>\<open>GetUserByID\<close> with that id then returns
  the user.
\<close>

theorem create_overwrites:
  "fst (inMemoryUserRepository_CreateUser user users) = Inr user
   \<and> snd (inMemoryUserRepository_CreateUser user users) = users(ID user \<mapsto> user)
   \<and> inMemoryUserRepository_GetUserByID (ID user) (snd (inMemoryUserRepository_CreateUser user users))
       = (Inr user, users(ID user \<mapsto> user))"
  by (simp add: inMemoryUserRepository_CreateUser_def inMemoryUserRepository_GetUserByID_def)

end
